theory Spec2Isabelle
  imports Complex_Main "HOL-Library.AList"
begin

section \<open>Values shared by both source files\<close>

text \<open>
  The exceptions that the two source files raise or catch. An operation that can raise
  returns the exception as a value, next to the state and the effects it had produced
  up to that point.
\<close>

datatype exn =
    ZeroDivisionError
  | FileNotFoundError
  | IndexError
  | KeyError
  | NotImplementedError string

text \<open>
  \<open>class ConnectionState(IntEnum)\<close> of \<open>cura/PrinterOutputDevice.py\<close>. The constructor
  names carry a suffix because \<open>closed\<close> and \<open>connected\<close> are constants of the library.
\<close>

datatype ConnectionState =
    closed_state
  | connecting_state
  | connected_state
  | busy_state
  | error_state

text \<open>
  The Qt signals of a device (\<open>connectionStateChanged\<close> carries the device id), the two
  Qt signals of the manager, and the manager's \<open>addUSBOutputDeviceSignal\<close>, which carries
  a port.
\<close>

datatype signal =
    bedTemperatureChanged
  | targetBedTemperatureChanged
  | progressChanged
  | hotendTemperaturesChanged
  | targetHotendTemperaturesChanged
  | headPositionChanged
  | connectionStateChanged string
  | manager_connectionStateChanged
  | manager_progressChanged
  | addUSBOutputDeviceSignal string

text \<open>
  Everything a method does besides changing the fields of its own object is recorded, in
  program order, as a list of events:
  a signal emission, a \<open>Logger.log(level, message)\<close> call, the invocation of an
  implementation hook (\<open>self._setHeadY(y, speed)\<close> is \<open>Hook ''_setHeadY'' [y, speed]\<close>),
  a \<open>Message(...).show()\<close>, the three operations on the firmware window, the calls the
  manager makes on the methods of \<open>USBPrinterOutputDevice\<close> (a class whose file is not
  among the two source files, so only the call and its arguments are recorded), the
  moment the dict gives up its reference to a device object (\<open>DeviceUnreferenced\<close>: an
  entry is deleted or replaced; when no other reference is left the object is destroyed
  and \<open>PrinterOutputDevice.__del__\<close> calls \<open>close()\<close>), and the calls on the
  application's output device manager.
\<close>

datatype event =
    Emit signal
  | Log string string
  | Hook string "int list"
  | ShowMessage string
  | CreateFirmwareView
  | ShowFirmwareView
  | CloseFirmwareView
  | DeviceUpdateFirmware string string
  | DeviceSetProgress string int int
  | DeviceConnect string
  | DeviceClose string
  | DeviceUnreferenced string
  | RegistryAddOutputDevice string
  | RegistryRemoveOutputDevice string

section \<open>cura/PrinterOutputDevice.py\<close>

text \<open>
  The fields that \<open>PrinterOutputDevice.__init__\<close> creates, named as in the source without
  the leading underscore (\<open>_id\<close>, set by the base class from \<open>device_id\<close>, is \<open>device_id\<close>).
  Temperatures read from the printer, head coordinates and progress are Python numbers;
  they are modelled as exact rationals, so the rounding of floats is not part of the model.
\<close>

record PrinterOutputDevice =
  device_id :: string
  target_bed_temperature :: int
  bed_temperature :: rat
  num_extruders :: nat
  hotend_temperatures :: "rat list"
  target_hotend_temperatures :: "int list"
  progress :: rat
  head_x :: rat
  head_y :: rat
  head_z :: rat
  connection_state :: ConnectionState

definition init_device :: "string \<Rightarrow> PrinterOutputDevice" where
  "init_device dev_id =
     \<lparr> device_id = dev_id,
       target_bed_temperature = 0,
       bed_temperature = 0,
       num_extruders = 1,
       hotend_temperatures = replicate 1 0,
       target_hotend_temperatures = replicate 1 0,
       progress = 0,
       head_x = 0,
       head_y = 0,
       head_z = 0,
       connection_state = closed_state \<rparr>"

text \<open>
  Python's \<open>xs[i] = v\<close> on a list: an index from \<open>0\<close> to \<open>len(xs) - 1\<close> counts from the
  front, an index from \<open>-len(xs)\<close> to \<open>-1\<close> counts from the end, every other index raises
  \<open>IndexError\<close>.
\<close>

definition list_setitem :: "'a list \<Rightarrow> int \<Rightarrow> 'a \<Rightarrow> exn + 'a list" where
  "list_setitem xs i v =
     (let n = int (length xs) in
      if 0 \<le> i \<and> i < n then Inr (xs[nat i := v])
      else if - n \<le> i \<and> i < 0 then Inr (xs[nat (n + i) := v])
      else Inl IndexError)"

subsection \<open>Implementation hooks of the base class\<close>

text \<open>
  Each hook of the base class only logs a warning. The invocation itself is recorded
  first, with the arguments it received, so that the trace shows which hook a public
  method dispatched to.
\<close>

definition impl_setTargetBedTemperature :: "int \<Rightarrow> event list" where
  "impl_setTargetBedTemperature temperature =
     [Hook ''_setTargetBedTemperature'' [temperature],
      Log ''w'' ''_setTargetBedTemperature is not implemented by this output device'']"

definition impl_setTargetHotendTemperature :: "int \<Rightarrow> int \<Rightarrow> event list" where
  "impl_setTargetHotendTemperature index temperature =
     [Hook ''_setTargetHotendTemperature'' [index, temperature],
      Log ''w'' ''_setTargetHotendTemperature is not implemented by this output device'']"

definition impl_moveHead :: "int \<Rightarrow> int \<Rightarrow> int \<Rightarrow> int \<Rightarrow> event list" where
  "impl_moveHead x y z speed =
     [Hook ''_moveHead'' [x, y, z, speed],
      Log ''w'' ''_moveHead is not implemented by this output device'']"

definition impl_setHeadPosition :: "int \<Rightarrow> int \<Rightarrow> int \<Rightarrow> int \<Rightarrow> event list" where
  "impl_setHeadPosition x y z speed =
     [Hook ''_setHeadPosition'' [x, y, z, speed],
      Log ''w'' ''_setHeadPosition is not implemented by this output device'']"

definition impl_setHeadX :: "int \<Rightarrow> int \<Rightarrow> event list" where
  "impl_setHeadX x speed =
     [Hook ''_setHeadX'' [x, speed],
      Log ''w'' ''_setHeadX is not implemented by this output device'']"

definition impl_setHeadY :: "int \<Rightarrow> int \<Rightarrow> event list" where
  "impl_setHeadY y speed =
     [Hook ''_setHeadY'' [y, speed],
      Log ''w'' ''_setHeadY is not implemented by this output device'']"

definition impl_setHeadZ :: "int \<Rightarrow> int \<Rightarrow> event list" where
  "impl_setHeadZ z speed =
     [Hook ''_setHeadZ'' [z, speed],
      Log ''w'' ''_setHeadZ is not implemented by this output device'']"

subsection \<open>Public methods\<close>

text \<open>
  A method maps the device to the device afterwards, the events in program order and the
  exception that ended it, if any.
\<close>

type_synonym device_outcome = "PrinterOutputDevice \<times> event list \<times> exn option"

definition setTargetBedTemperature :: "PrinterOutputDevice \<Rightarrow> int \<Rightarrow> device_outcome" where
  "setTargetBedTemperature d temperature =
     (d\<lparr>target_bed_temperature := temperature\<rparr>,
      impl_setTargetBedTemperature temperature @ [Emit targetBedTemperatureChanged],
      None)"

definition setTargetHotendTemperature ::
  "PrinterOutputDevice \<Rightarrow> int \<Rightarrow> int \<Rightarrow> device_outcome" where
  "setTargetHotendTemperature d index temperature =
     (let tr = impl_setTargetHotendTemperature index temperature in
      case list_setitem (target_hotend_temperatures d) index temperature of
        Inl e \<Rightarrow> (d, tr, Some e)
      | Inr ts \<Rightarrow>
          (d\<lparr>target_hotend_temperatures := ts\<rparr>,
           tr @ [Emit targetHotendTemperaturesChanged],
           None))"

definition setConnectionState :: "PrinterOutputDevice \<Rightarrow> ConnectionState \<Rightarrow> device_outcome" where
  "setConnectionState d st =
     (d\<lparr>connection_state := st\<rparr>, [Emit (connectionStateChanged (device_id d))], None)"

definition updateHeadPosition :: "PrinterOutputDevice \<Rightarrow> rat \<Rightarrow> rat \<Rightarrow> rat \<Rightarrow> device_outcome" where
  "updateHeadPosition d x y z =
     (let position_changed = False;
          (d, position_changed) =
             (if head_x d \<noteq> x then (d\<lparr>head_x := x\<rparr>, True) else (d, position_changed));
          (d, position_changed) =
             (if head_y d \<noteq> y then (d\<lparr>head_y := y\<rparr>, True) else (d, position_changed));
          (d, position_changed) =
             (if head_z d \<noteq> z then (d\<lparr>head_z := z\<rparr>, True) else (d, position_changed))
      in (d, (if position_changed then [Emit headPositionChanged] else []), None))"

definition setHeadPosition :: "PrinterOutputDevice \<Rightarrow> int \<Rightarrow> int \<Rightarrow> int \<Rightarrow> int \<Rightarrow> device_outcome" where
  "setHeadPosition d x y z speed = (d, impl_setHeadPosition x y z speed, None)"

definition setHeadX :: "PrinterOutputDevice \<Rightarrow> int \<Rightarrow> int \<Rightarrow> device_outcome" where
  "setHeadX d x speed = (d, impl_setHeadX x speed, None)"

definition setHeadY :: "PrinterOutputDevice \<Rightarrow> int \<Rightarrow> int \<Rightarrow> device_outcome" where
  "setHeadY d y speed = (d, impl_setHeadY y speed, None)"

text \<open>The body of \<open>setHeadZ\<close> in the source is \<open>self._setHeadY(z, speed)\<close>.\<close>

definition setHeadZ :: "PrinterOutputDevice \<Rightarrow> int \<Rightarrow> int \<Rightarrow> device_outcome" where
  "setHeadZ d z speed = (d, impl_setHeadY z speed, None)"

definition moveHead :: "PrinterOutputDevice \<Rightarrow> int \<Rightarrow> int \<Rightarrow> int \<Rightarrow> int \<Rightarrow> device_outcome" where
  "moveHead d x y z speed = (d, impl_moveHead x y z speed, None)"

definition setProgress :: "PrinterOutputDevice \<Rightarrow> rat \<Rightarrow> device_outcome" where
  "setProgress d p =
     (if progress d \<noteq> p then (d\<lparr>progress := p\<rparr>, [Emit progressChanged], None)
      else (d, [], None))"

section \<open>plugins/USBPrinting/USBPrinterOutputDeviceManager.py\<close>

subsection \<open>What the manager reads from its surroundings\<close>

text \<open>
  The manager reads four things that are not its own state: the id of the active machine
  definition, the truth value of its \<open>machine_heated_bed\<close> setting, the string returned by
  \<open>platform.system()\<close>, and \<open>Resources.getPath\<close> for the firmware resource type, which
  returns a path or raises \<open>FileNotFoundError\<close> (\<open>None\<close> here). The files on disk may
  change while a batch runs, so \<open>getPath\<close> also receives the port of the device that is
  being flashed when the lookup is made.
\<close>

record environment =
  machine_type :: string
  machine_heated_bed :: bool
  platform_system :: string
  getPath :: "string \<Rightarrow> string \<Rightarrow> string option"

subsection \<open>Firmware name resolution\<close>

text \<open>\<open>str(n)\<close> for a natural number: its decimal digits.\<close>

definition digit_char :: "nat \<Rightarrow> char" where
  "digit_char k = ''0123456789'' ! k"

fun str_nat :: "nat \<Rightarrow> string" where
  "str_nat n = (if n < 10 then [digit_char n] else str_nat (n div 10) @ [digit_char (n mod 10)])"

declare str_nat.simps [simp del]

text \<open>
  \<open>hex_file.format(baudrate=baudrate)\<close>: every occurrence of the replacement field
  \<open>{baudrate}\<close> is replaced by the given text. The strings of the two firmware tables
  contain no other brace, so the other rules of Python's format strings never apply.
\<close>

fun format_baudrate :: "string \<Rightarrow> string \<Rightarrow> string" where
  "format_baudrate [] b = []"
| "format_baudrate (c # cs) b =
     (if take 10 (c # cs) = ''{baudrate}'' then b @ format_baudrate (drop 9 cs) b
      else c # format_baudrate cs b)"

definition machine_without_extras :: "(string \<times> string) list" where
  "machine_without_extras =
     [(''bq_witbox'', ''MarlinWitbox.hex''),
      (''bq_hephestos_2'', ''MarlinHephestos2.hex''),
      (''ultimaker_original'', ''MarlinUltimaker-{baudrate}.hex''),
      (''ultimaker_original_plus'', ''MarlinUltimaker-UMOP-{baudrate}.hex''),
      (''ultimaker2'', ''MarlinUltimaker2.hex''),
      (''ultimaker2_go'', ''MarlinUltimaker2go.hex''),
      (''ultimaker2plus'', ''MarlinUltimaker2plus.hex''),
      (''ultimaker2_extended'', ''MarlinUltimaker2extended.hex''),
      (''ultimaker2_extended_plus'', ''MarlinUltimaker2extended-plus.hex'')]"

definition machine_with_heated_bed :: "(string \<times> string) list" where
  "machine_with_heated_bed =
     [(''ultimaker_original'', ''MarlinUltimaker-HBK-{baudrate}.hex'')]"

text \<open>
  \<open>_getDefaultFirmwareName\<close>: the log lines it writes and either the file name or the
  \<open>FileNotFoundError\<close> it raises. \<open>if hex_file:\<close> is false for \<open>None\<close> and for the empty
  string.
\<close>

definition getDefaultFirmwareName :: "environment \<Rightarrow> event list \<times> (exn + string)" where
  "getDefaultFirmwareName env =
     (let mt = machine_type env;
          baudrate = (if platform_system env = ''Linux'' then 115200 else 250000);
          (hex_file, lg) =
            (if map_of machine_without_extras mt \<noteq> None then
               (if map_of machine_with_heated_bed mt \<noteq> None \<and> machine_heated_bed env then
                  (map_of machine_with_heated_bed mt,
                   [Log ''d'' (''Choosing firmware with heated bed enabled for machine ''
                               @ mt @ ''.'')])
                else
                  (map_of machine_without_extras mt,
                   [Log ''d'' (''Choosing basic firmware for machine '' @ mt @ ''.'')]))
             else
               (None, [Log ''e'' (''There is no firmware for machine '' @ mt @ ''.'')]))
      in if hex_file \<noteq> None \<and> hex_file \<noteq> Some []
         then (lg, Inr (format_baudrate (the hex_file) (str_nat baudrate)))
         else (lg @ [Log ''e'' (''Could not find any firmware for machine '' @ mt @ ''.'')],
               Inl FileNotFoundError))"

subsection \<open>State of the manager\<close>

text \<open>
  \<open>_usb_output_devices\<close> is a Python dict, which keeps its keys in insertion order and is
  iterated in that order: it is a list of pairs, written with \<open>AList.update\<close> (an existing
  key keeps its place, a new key goes to the end) and \<open>AList.delete\<close>, read with
  \<open>map_of\<close>. \<open>firmware_view\<close> tells whether \<open>_firmware_view\<close> is an object rather than
  \<open>None\<close>. The worker thread object and the Qt list model are not part of the model.
\<close>

record USBPrinterOutputDeviceManager =
  serial_port_list :: "string list"
  usb_output_devices :: "(string \<times> PrinterOutputDevice) list"
  check_updates :: bool
  firmware_view :: bool

definition init_manager :: USBPrinterOutputDeviceManager where
  "init_manager =
     \<lparr> serial_port_list = [],
       usb_output_devices = [],
       check_updates = True,
       firmware_view = False \<rparr>"

subsection \<open>Aggregated progress\<close>

text \<open>
  The \<open>progress\<close> property of the manager. Python's \<open>/\<close> raises \<open>ZeroDivisionError\<close> when
  the divisor is zero.
\<close>

definition manager_progress :: "USBPrinterOutputDeviceManager \<Rightarrow> exn + rat" where
  "manager_progress m =
     (let total = foldl (\<lambda>acc (printer_name, device). acc + progress device)
                        0 (usb_output_devices m)
      in if length (usb_output_devices m) = 0 then Inl ZeroDivisionError
         else Inr (total / of_nat (length (usb_output_devices m))))"

subsection \<open>Firmware update\<close>

text \<open>The argument \<open>serial_port\<close> is not used by the body of \<open>spawnFirmwareInterface\<close>.\<close>

definition spawnFirmwareInterface ::
  "USBPrinterOutputDeviceManager \<Rightarrow> string \<Rightarrow> USBPrinterOutputDeviceManager \<times> event list" where
  "spawnFirmwareInterface m serial_port =
     (if \<not> firmware_view m
      then (m\<lparr>firmware_view := True\<rparr>, [CreateFirmwareView, ShowFirmwareView])
      else (m, [ShowFirmwareView]))"

text \<open>
  The statement inside both \<open>try\<close> blocks,
  \<open>device.updateFirmware(Resources.getPath(Firmware, self._getDefaultFirmwareName()))\<close>,
  for the device stored under \<open>port\<close>: the innermost call is evaluated first, then
  \<open>getPath\<close>, then \<open>updateFirmware\<close>.
\<close>

definition try_updateFirmware :: "environment \<Rightarrow> string \<Rightarrow> event list \<times> exn option" where
  "try_updateFirmware env port =
     (case getDefaultFirmwareName env of
        (lg, Inl e) \<Rightarrow> (lg, Some e)
      | (lg, Inr name) \<Rightarrow>
          (case getPath env port name of
             None \<Rightarrow> (lg, Some FileNotFoundError)
           | Some path \<Rightarrow> (lg @ [DeviceUpdateFirmware port path], None)))"

text \<open>
  The \<open>for\<close> loop of \<open>updateAllFirmware\<close> over the keys of the dict. Only
  \<open>FileNotFoundError\<close> is caught; any other exception ends the loop and the method.
\<close>

fun updateAllFirmware_loop :: "environment \<Rightarrow> string list \<Rightarrow> event list \<times> exn option" where
  "updateAllFirmware_loop env [] = ([], None)"
| "updateAllFirmware_loop env (printer_connection # rest) =
     (case try_updateFirmware env printer_connection of
        (tr, None) \<Rightarrow>
          (case updateAllFirmware_loop env rest of (tr', r) \<Rightarrow> (tr @ tr', r))
      | (tr, Some e) \<Rightarrow>
          if e = FileNotFoundError then
            (case updateAllFirmware_loop env rest of
               (tr', r) \<Rightarrow>
                 (tr @ [DeviceSetProgress printer_connection 100 100,
                        Log ''w'' (''No firmware found for printer '' @ printer_connection)]
                     @ tr', r))
          else (tr, Some e))"

definition updateAllFirmware ::
  "environment \<Rightarrow> USBPrinterOutputDeviceManager \<Rightarrow>
     USBPrinterOutputDeviceManager \<times> event list \<times> exn option" where
  "updateAllFirmware env m =
     (if usb_output_devices m = [] then
        (m, [ShowMessage ''Cannot update firmware, there were no connected printers found.''],
         None)
      else
        (case spawnFirmwareInterface m [] of
           (m1, tr1) \<Rightarrow>
             (case updateAllFirmware_loop env (map fst (usb_output_devices m1)) of
                (tr2, r) \<Rightarrow> (m1, tr1 @ tr2, r))))"

text \<open>
  \<open>updateFirmwareBySerial\<close>. The value of \<open>getSerialPort()\<close> is only passed to
  \<open>spawnFirmwareInterface\<close>, which does not use it; the key stands for it.
\<close>

definition updateFirmwareBySerial ::
  "environment \<Rightarrow> USBPrinterOutputDeviceManager \<Rightarrow> string \<Rightarrow>
     USBPrinterOutputDeviceManager \<times> event list \<times> (exn + bool)" where
  "updateFirmwareBySerial env m serial_port =
     (if map_of (usb_output_devices m) serial_port \<noteq> None then
        (case spawnFirmwareInterface m serial_port of
           (m1, tr1) \<Rightarrow>
             (case try_updateFirmware env serial_port of
                (tr, None) \<Rightarrow> (m1, tr1 @ tr, Inr True)
              | (tr, Some e) \<Rightarrow>
                  if e = FileNotFoundError then
                    (m1,
                     tr1 @ tr @ [CloseFirmwareView,
                                 Log ''e'' ''Could not find firmware required for this machine''],
                     Inr False)
                  else (m1, tr1 @ tr, Inl e)))
      else (m, [], Inr False))"

subsection \<open>Port scan\<close>

text \<open>
  \<open>addOutputDevice\<close>, the slot of \<open>addUSBOutputDeviceSignal\<close>: the new device has the
  fields of the base class constructor; its \<open>connect()\<close> is a call on
  \<open>USBPrinterOutputDevice\<close>. Storing it under a key that is already there replaces the
  device stored before.
\<close>

definition addOutputDevice ::
  "USBPrinterOutputDeviceManager \<Rightarrow> string \<Rightarrow> USBPrinterOutputDeviceManager \<times> event list" where
  "addOutputDevice m serial_port =
     (let device = init_device serial_port in
      (m\<lparr>usb_output_devices := AList.update serial_port device (usb_output_devices m)\<rparr>,
       DeviceConnect serial_port
         # (if map_of (usb_output_devices m) serial_port \<noteq> None
            then [DeviceUnreferenced serial_port] else [])))"

text \<open>
  The first loop of \<open>_addRemovePorts\<close>, which compares each scanned port with the port
  list of the cycle before. \<open>_addRemovePorts\<close> runs on the worker thread, and
  \<open>addUSBOutputDeviceSignal.emit(serial_port)\<close> hands the port over to the thread that
  owns the manager: the loop only emits, and the dict is not touched.
\<close>

fun emit_new_ports :: "string list \<Rightarrow> string list \<Rightarrow> event list" where
  "emit_new_ports known [] = []"
| "emit_new_ports known (serial_port # rest) =
     (if serial_port \<notin> set known
      then Emit (addUSBOutputDeviceSignal serial_port) # emit_new_ports known rest
      else emit_new_ports known rest)"

text \<open>
  \<open>_addRemovePorts\<close>: the emissions, the replacement of the port list, \<open>close()\<close> on every
  tracked device whose port is not in the new list, and then the deletion of those
  entries.
\<close>

definition addRemovePorts ::
  "USBPrinterOutputDeviceManager \<Rightarrow> string list \<Rightarrow> USBPrinterOutputDeviceManager \<times> event list" where
  "addRemovePorts m serial_ports =
     (let tr1 = emit_new_ports (serial_port_list m) serial_ports;
          m2 = m\<lparr>serial_port_list := serial_ports\<rparr>;
          devices_to_remove =
            map fst (filter (\<lambda>(port, device). port \<notin> set (serial_port_list m2))
                            (usb_output_devices m2));
          m3 = m2\<lparr>usb_output_devices :=
                    foldl (\<lambda>ds port. AList.delete port ds)
                          (usb_output_devices m2) devices_to_remove\<rparr>
      in (m3, tr1 @ map DeviceClose devices_to_remove
                  @ map DeviceUnreferenced devices_to_remove))"

text \<open>The ports that a trace hands over, in the order of their emission.\<close>

fun handed_off :: "event list \<Rightarrow> string list" where
  "handed_off [] = []"
| "handed_off (Emit (addUSBOutputDeviceSignal port) # tr) = port # handed_off tr"
| "handed_off (e # tr) = handed_off tr"

text \<open>
  The manager together with the ports that have been handed over and not yet delivered,
  oldest first. Two kinds of step change it: a scan cycle of the worker, which appends
  the ports it hands over, and a delivery on the owning thread, which runs
  \<open>addOutputDevice\<close> for the oldest pending port. Steps do not overlap.
\<close>

type_synonym discovery = "USBPrinterOutputDeviceManager \<times> string list"

definition scan_step :: "discovery \<Rightarrow> string list \<Rightarrow> discovery" where
  "scan_step s serial_ports =
     (case s of
        (m, pending) \<Rightarrow>
          (case addRemovePorts m serial_ports of
             (m', tr) \<Rightarrow> (m', pending @ handed_off tr)))"

fun deliver_step :: "discovery \<Rightarrow> discovery" where
  "deliver_step (m, []) = (m, [])"
| "deliver_step (m, port # pending) = (fst (addOutputDevice m port), pending)"

text \<open>Delivery of everything that is pending.\<close>

fun deliver_all :: "discovery \<Rightarrow> discovery" where
  "deliver_all (m, []) = (m, [])"
| "deliver_all (m, port # pending) = deliver_all (deliver_step (m, port # pending))"

text \<open>
  A run of scan cycles in which the owning thread delivers every port handed over by a
  cycle before the next cycle starts.
\<close>

definition scan_cycles_delivered ::
  "USBPrinterOutputDeviceManager \<Rightarrow> string list list \<Rightarrow> USBPrinterOutputDeviceManager" where
  "scan_cycles_delivered m scans =
     foldl (\<lambda>m' serial_ports. fst (deliver_all (scan_step (m', []) serial_ports))) m scans"

text \<open>
  The state that a delivered scan cycle leaves behind: the keys of the dict are the
  ports of the last scan, each once.
\<close>

definition ports_tracked :: "USBPrinterOutputDeviceManager \<Rightarrow> bool" where
  "ports_tracked m \<longleftrightarrow>
     set (map fst (usb_output_devices m)) = set (serial_port_list m)
     \<and> distinct (map fst (usb_output_devices m))"

subsection \<open>Connection state reports\<close>

text \<open>
  \<open>_onConnectionStateChanged\<close>. The \<open>KeyError\<close> of the first dict lookup is caught and
  nothing has happened before it.
\<close>

definition onConnectionStateChanged :: "USBPrinterOutputDeviceManager \<Rightarrow> string \<Rightarrow> event list" where
  "onConnectionStateChanged m serial_port =
     (case map_of (usb_output_devices m) serial_port of
        None \<Rightarrow> []
      | Some device \<Rightarrow>
          (if connection_state device = connected_state
           then [RegistryAddOutputDevice serial_port]
           else [RegistryRemoveOutputDevice serial_port])
          @ [Emit manager_connectionStateChanged])"

text \<open>
  One connection-state report: the device stored under \<open>port\<close> runs
  \<open>setConnectionState(st)\<close>, and the signal it emits runs the manager's slot with the id
  carried by the signal. A device that is not in the dict (not yet stored, or already
  removed) still emits, and the slot then finds no entry.
\<close>

definition report_connection_state ::
  "USBPrinterOutputDeviceManager \<Rightarrow> string \<Rightarrow> ConnectionState \<Rightarrow>
     USBPrinterOutputDeviceManager \<times> event list" where
  "report_connection_state m port st =
     (case map_of (usb_output_devices m) port of
        None \<Rightarrow> (m, Emit (connectionStateChanged port) # onConnectionStateChanged m port)
      | Some device \<Rightarrow>
          (case setConnectionState device st of
             (device', tr, r) \<Rightarrow>
               (let m' = m\<lparr>usb_output_devices :=
                              AList.update port device' (usb_output_devices m)\<rparr>
                in (m', tr @ onConnectionStateChanged m' (device_id device')))))"

fun report_connection_states ::
  "USBPrinterOutputDeviceManager \<Rightarrow> (string \<times> ConnectionState) list \<Rightarrow>
     USBPrinterOutputDeviceManager \<times> event list" where
  "report_connection_states m [] = (m, [])"
| "report_connection_states m ((port, st) # rest) =
     (case report_connection_state m port st of
        (m1, tr1) \<Rightarrow>
          (case report_connection_states m1 rest of (m2, tr2) \<Rightarrow> (m2, tr1 @ tr2)))"

text \<open>
  The calls on the application's output device manager within a trace, and the property
  that every device is stored under its own id, which \<open>addOutputDevice\<close> establishes (the
  device is constructed from the port it is stored under).
\<close>

fun is_registry_call :: "event \<Rightarrow> bool" where
  "is_registry_call (RegistryAddOutputDevice port) = True"
| "is_registry_call (RegistryRemoveOutputDevice port) = True"
| "is_registry_call e = False"

definition keys_are_ids :: "USBPrinterOutputDeviceManager \<Rightarrow> bool" where
  "keys_are_ids m = list_all (\<lambda>(port, device). device_id device = port) (usb_output_devices m)"

subsection \<open>File systems of the examples\<close>

text \<open>
  Three behaviours of \<open>Resources.getPath\<close> that the examples below use: every image is
  found under \<open>/firmware/\<close>; every image is found except while the device on one given
  port is being flashed; no image is found.
\<close>

definition images_present :: "string \<Rightarrow> string \<Rightarrow> string option" where
  "images_present port name = Some (''/firmware/'' @ name)"

definition images_absent_at :: "string \<Rightarrow> string \<Rightarrow> string \<Rightarrow> string option" where
  "images_absent_at p port name = (if port = p then None else Some (''/firmware/'' @ name))"

definition no_images :: "string \<Rightarrow> string \<Rightarrow> string option" where
  "no_images port name = None"

section \<open>Properties of the device\<close>

text \<open>
  C7. For every stored head position and every new position \<open>(x, y, z)\<close>, the head-position
  update ends with the new position stored on all three axes, never raises, and emits
  exactly one head-position-changed notification when at least one axis differs from the
  stored one and no notification when none differs.
\<close>

theorem C7_updateHeadPosition_single_notification:
  "updateHeadPosition d x y z =
     (d\<lparr>head_x := x, head_y := y, head_z := z\<rparr>,
      (if head_x d = x \<and> head_y d = y \<and> head_z d = z
       then [] else [Emit headPositionChanged]),
      None)"
  by (simp add: updateHeadPosition_def)

theorem C7_updateHeadPosition_witness:
  "updateHeadPosition (init_device ''/dev/ttyUSB0'') 0 7 0 =
     ((init_device ''/dev/ttyUSB0'')\<lparr>head_x := 0, head_y := 7, head_z := 0\<rparr>,
      [Emit headPositionChanged], None)
   \<and> updateHeadPosition (init_device ''/dev/ttyUSB0'') 0 0 0 =
     (init_device ''/dev/ttyUSB0'', [], None)"
  using C7_updateHeadPosition_single_notification [of "init_device ''/dev/ttyUSB0''" 0 7 0]
        C7_updateHeadPosition_single_notification [of "init_device ''/dev/ttyUSB0''" 0 0 0]
  by (simp add: init_device_def)

text \<open>
  C8. \<open>setHeadZ(z, speed)\<close> does not reach the Z-axis hook: for every device, \<open>z\<close> and
  \<open>speed\<close> it invokes the Y-axis hook \<open>_setHeadY\<close> with \<open>(z, speed)\<close>, so its effects are
  those of \<open>setHeadY(z, speed)\<close>, and \<open>_setHeadZ\<close> is never invoked.
\<close>

theorem C8_setHeadZ_invokes_Y_hook:
  "setHeadZ d z speed = (d, impl_setHeadY z speed, None)
   \<and> setHeadZ d z speed = setHeadY d z speed
   \<and> fst (snd (setHeadZ d z speed)) \<noteq> impl_setHeadZ z speed
   \<and> Hook ''_setHeadY'' [z, speed] \<in> set (fst (snd (setHeadZ d z speed)))
   \<and> Hook ''_setHeadZ'' [z, speed] \<notin> set (fst (snd (setHeadZ d z speed)))"
  by (simp add: setHeadZ_def setHeadY_def impl_setHeadY_def impl_setHeadZ_def)

text \<open>
  C9. On a device whose target-hotend-temperature array has one entry per extruder:
  for an index greater than or equal to the extruder count,
  \<open>setTargetHotendTemperature(index, temp)\<close> invokes the implementation hook, then raises
  \<open>IndexError\<close>, leaves the device (and so the array) unchanged and emits no
  hotend-target-changed notification; for a negative index not below minus the extruder
  count it overwrites the element counted from the end, emits the notification after the
  hook and does not raise.
\<close>

theorem C9_setTargetHotendTemperature_out_of_range:
  assumes "length (target_hotend_temperatures d) = num_extruders d"
  shows "(int (num_extruders d) \<le> index \<longrightarrow>
            setTargetHotendTemperature d index temperature =
              (d, impl_setTargetHotendTemperature index temperature, Some IndexError)
            \<and> Emit targetHotendTemperaturesChanged
                \<notin> set (fst (snd (setTargetHotendTemperature d index temperature))))
       \<and> (- int (num_extruders d) \<le> index \<and> index < 0 \<longrightarrow>
            setTargetHotendTemperature d index temperature =
              (d\<lparr>target_hotend_temperatures :=
                   (target_hotend_temperatures d)
                     [nat (int (num_extruders d) + index) := temperature]\<rparr>,
               impl_setTargetHotendTemperature index temperature
                 @ [Emit targetHotendTemperaturesChanged],
               None))"
  using assms
  by (simp add: setTargetHotendTemperature_def list_setitem_def Let_def
                impl_setTargetHotendTemperature_def)

theorem C9_setTargetHotendTemperature_witness:
  "length (target_hotend_temperatures (init_device ''/dev/ttyUSB0''))
     = num_extruders (init_device ''/dev/ttyUSB0'')
   \<and> setTargetHotendTemperature (init_device ''/dev/ttyUSB0'') 1 210 =
       (init_device ''/dev/ttyUSB0'',
        [Hook ''_setTargetHotendTemperature'' [1, 210],
         Log ''w'' ''_setTargetHotendTemperature is not implemented by this output device''],
        Some IndexError)
   \<and> setTargetHotendTemperature (init_device ''/dev/ttyUSB0'') (- 1) 210 =
       ((init_device ''/dev/ttyUSB0'')\<lparr>target_hotend_temperatures := [210]\<rparr>,
        [Hook ''_setTargetHotendTemperature'' [- 1, 210],
         Log ''w'' ''_setTargetHotendTemperature is not implemented by this output device'',
         Emit targetHotendTemperaturesChanged],
        None)"
proof -
  let ?d = "init_device ''/dev/ttyUSB0''"
  have inv: "length (target_hotend_temperatures ?d) = num_extruders ?d"
    by (simp add: init_device_def)
  have n: "num_extruders ?d = 1" "target_hotend_temperatures ?d = [0]"
    by (simp_all add: init_device_def)
  from C9_setTargetHotendTemperature_out_of_range [OF inv, of 1 210]
  have a: "setTargetHotendTemperature ?d 1 210 =
             (?d, impl_setTargetHotendTemperature 1 210, Some IndexError)"
    by (simp add: n)
  from C9_setTargetHotendTemperature_out_of_range [OF inv, of "- 1" 210]
  have b: "setTargetHotendTemperature ?d (- 1) 210 =
             (?d\<lparr>target_hotend_temperatures := [210]\<rparr>,
              impl_setTargetHotendTemperature (- 1) 210
                @ [Emit targetHotendTemperaturesChanged], None)"
    by (simp add: n)
  show ?thesis
    using inv a b by (simp add: impl_setTargetHotendTemperature_def)
qed

section \<open>Properties of the manager\<close>

subsection \<open>Aggregated progress\<close>

lemma foldl_progress_sum:
  "foldl (\<lambda>acc (printer_name, device). acc + progress device) a ds
     = a + sum_list (map (\<lambda>kd. progress (snd kd)) ds)"
  by (induction ds arbitrary: a) (auto simp add: case_prod_beta)

text \<open>
  With at least one tracked device the property is the arithmetic mean of the devices'
  progress values.
\<close>

lemma manager_progress_mean:
  "usb_output_devices m \<noteq> [] \<Longrightarrow>
     manager_progress m =
       Inr (sum_list (map (\<lambda>kd. progress (snd kd)) (usb_output_devices m))
            / of_nat (length (usb_output_devices m)))"
  by (simp add: manager_progress_def foldl_progress_sum)

text \<open>
  C1. The division is not guarded: with no tracked device (the state of a new manager,
  and the state after the last tracked device has been removed) reading the manager's
  \<open>progress\<close> raises \<open>ZeroDivisionError\<close> instead of returning 0.
\<close>

theorem C1_manager_progress_no_devices_raises:
  "manager_progress init_manager = Inl ZeroDivisionError
   \<and> manager_progress (m\<lparr>usb_output_devices := []\<rparr>) = Inl ZeroDivisionError"
  by (simp add: manager_progress_def init_manager_def)

subsection \<open>Firmware name resolution\<close>

lemma str_nat_115200: "str_nat 115200 = ''115200''"
  by (simp add: str_nat.simps digit_char_def)

lemma str_nat_250000: "str_nat 250000 = ''250000''"
  by (simp add: str_nat.simps digit_char_def)

lemma getDefaultFirmwareName_missing:
  assumes "map_of machine_without_extras (machine_type env) = None"
  shows "getDefaultFirmwareName env =
           ([Log ''e'' (''There is no firmware for machine '' @ machine_type env @ ''.''),
             Log ''e'' (''Could not find any firmware for machine '' @ machine_type env @ ''.'')],
            Inl FileNotFoundError)"
  using assms by (simp add: getDefaultFirmwareName_def Let_def)

text \<open>
  C6. For machine id \<open>ultimaker_original\<close> the resolved name is
  \<open>MarlinUltimaker-HBK-<baud>.hex\<close> when the heated-bed setting is on and
  \<open>MarlinUltimaker-<baud>.hex\<close> when it is off, where \<open><baud>\<close> is \<open>115200\<close> when
  \<open>platform.system()\<close> is \<open>Linux\<close> and \<open>250000\<close> otherwise.
\<close>

theorem C6_ultimaker_original_firmware_name:
  assumes "machine_type env = ''ultimaker_original''"
  shows "snd (getDefaultFirmwareName env) =
           Inr (if machine_heated_bed env
                then ''MarlinUltimaker-HBK-''
                       @ (if platform_system env = ''Linux'' then ''115200'' else ''250000'')
                       @ ''.hex''
                else ''MarlinUltimaker-''
                       @ (if platform_system env = ''Linux'' then ''115200'' else ''250000'')
                       @ ''.hex'')"
  using assms
  by (simp add: getDefaultFirmwareName_def machine_without_extras_def
                machine_with_heated_bed_def str_nat_115200 str_nat_250000)

text \<open>On Linux with the heated bed on, and on Windows with the heated bed off.\<close>

theorem C6_ultimaker_original_firmware_name_witness:
  "machine_type \<lparr> machine_type = ''ultimaker_original'', machine_heated_bed = True,
                   platform_system = ''Linux'', getPath = no_images \<rparr>
     = ''ultimaker_original''
   \<and> snd (getDefaultFirmwareName
            \<lparr> machine_type = ''ultimaker_original'', machine_heated_bed = True,
              platform_system = ''Linux'', getPath = no_images \<rparr>)
       = Inr ''MarlinUltimaker-HBK-115200.hex''
   \<and> snd (getDefaultFirmwareName
            \<lparr> machine_type = ''ultimaker_original'', machine_heated_bed = False,
              platform_system = ''Windows'', getPath = no_images \<rparr>)
       = Inr ''MarlinUltimaker-250000.hex''"
  using C6_ultimaker_original_firmware_name
          [of "\<lparr> machine_type = ''ultimaker_original'', machine_heated_bed = True,
                 platform_system = ''Linux'', getPath = no_images \<rparr>"]
        C6_ultimaker_original_firmware_name
          [of "\<lparr> machine_type = ''ultimaker_original'', machine_heated_bed = False,
                 platform_system = ''Windows'', getPath = no_images \<rparr>"]
  by simp

subsection \<open>Firmware update\<close>

lemma try_updateFirmware_resolved:
  assumes "getDefaultFirmwareName env = (lg, Inr name)"
  shows "try_updateFirmware env port =
           (case getPath env port name of
              None \<Rightarrow> (lg, Some FileNotFoundError)
            | Some path \<Rightarrow> (lg @ [DeviceUpdateFirmware port path], None))"
  using assms by (simp add: try_updateFirmware_def)

lemma updateAllFirmware_loop_resolved:
  assumes "getDefaultFirmwareName env = (lg, Inr name)"
  shows "updateAllFirmware_loop env ports =
           (concat (map (\<lambda>port.
               lg @ (case getPath env port name of
                       None \<Rightarrow> [DeviceSetProgress port 100 100,
                                 Log ''w'' (''No firmware found for printer '' @ port)]
                     | Some path \<Rightarrow> [DeviceUpdateFirmware port path])) ports),
            None)"
proof (induction ports)
  case Nil
  show ?case by simp
next
  case (Cons p ps)
  show ?case
    by (cases "getPath env p name")
       (simp_all add: try_updateFirmware_resolved [OF assms] Cons.IH)
qed

lemma updateAllFirmware_loop_unresolved:
  assumes "getDefaultFirmwareName env = (lg, Inl FileNotFoundError)"
  shows "updateAllFirmware_loop env ports =
           (concat (map (\<lambda>port.
               lg @ [DeviceSetProgress port 100 100,
                     Log ''w'' (''No firmware found for printer '' @ port)]) ports),
            None)"
proof (induction ports)
  case Nil
  show ?case by simp
next
  case (Cons p ps)
  show ?case
    by (simp add: try_updateFirmware_def assms Cons.IH)
qed

text \<open>
  C2. A missing base entry is caught inside the loop, by the same handler as a missing
  image file. When the active machine id has no entry in the base firmware table
  and at least one device is tracked, \<open>updateAllFirmware\<close> flashes no device and handles
  the missing entry once per device: the firmware window is shown, and for every tracked
  device in turn the resolution is attempted and fails, \<open>setProgress(100, 100)\<close> is
  called on that device and a warning is logged. The method returns normally and shows no
  message to the user.
\<close>

theorem C2_updateAllFirmware_missing_base_entry:
  assumes "map_of machine_without_extras (machine_type env) = None"
      and "usb_output_devices m \<noteq> []"
  shows "updateAllFirmware env m =
           (fst (spawnFirmwareInterface m []),
            snd (spawnFirmwareInterface m [])
              @ concat (map (\<lambda>port.
                   [Log ''e'' (''There is no firmware for machine '' @ machine_type env @ ''.''),
                    Log ''e'' (''Could not find any firmware for machine ''
                                @ machine_type env @ ''.''),
                    DeviceSetProgress port 100 100,
                    Log ''w'' (''No firmware found for printer '' @ port)])
                   (map fst (usb_output_devices m))),
            None)"
  using assms(2)
  by (simp add: updateAllFirmware_def spawnFirmwareInterface_def
                updateAllFirmware_loop_unresolved [OF getDefaultFirmwareName_missing [OF assms(1)]])

text \<open>One tracked device and a machine id that the base table does not have.\<close>

theorem C2_updateAllFirmware_missing_base_entry_witness:
  "map_of machine_without_extras
      (machine_type \<lparr> machine_type = ''prusa_i3'', machine_heated_bed = False,
                      platform_system = ''Linux'',
                      getPath = images_present \<rparr>) = None
   \<and> updateAllFirmware
        \<lparr> machine_type = ''prusa_i3'', machine_heated_bed = False, platform_system = ''Linux'',
          getPath = images_present \<rparr>
        (init_manager\<lparr>usb_output_devices := [(''COM3'', init_device ''COM3'')]\<rparr>)
     = (init_manager\<lparr>usb_output_devices := [(''COM3'', init_device ''COM3'')],
                      firmware_view := True\<rparr>,
        [CreateFirmwareView, ShowFirmwareView,
         Log ''e'' ''There is no firmware for machine prusa_i3.'',
         Log ''e'' ''Could not find any firmware for machine prusa_i3.'',
         DeviceSetProgress ''COM3'' 100 100,
         Log ''w'' ''No firmware found for printer COM3''],
        None)"
proof -
  let ?env = "\<lparr> machine_type = ''prusa_i3'', machine_heated_bed = False, platform_system = ''Linux'',
          getPath = images_present \<rparr>"
  let ?m = "init_manager\<lparr>usb_output_devices := [(''COM3'', init_device ''COM3'')]\<rparr>"
  have a: "map_of machine_without_extras (machine_type ?env) = None"
    by (simp add: machine_without_extras_def)
  have ne: "usb_output_devices ?m \<noteq> []" by simp
  show ?thesis
    using a C2_updateAllFirmware_missing_base_entry [OF a ne]
    by (simp add: spawnFirmwareInterface_def init_manager_def)
qed

text \<open>
  The batch does not fail hard and nothing is surfaced to the user: with machine id
  \<open>prusa_i3\<close>, absent from the base table, and two tracked devices, the method returns
  without an exception, shows no message, and handles the fault once for each device.
\<close>

theorem C2_missing_base_entry_not_fatal_counterexample:
  "map_of machine_without_extras ''prusa_i3'' = None
   \<and> updateAllFirmware
        \<lparr> machine_type = ''prusa_i3'', machine_heated_bed = False, platform_system = ''Linux'',
          getPath = images_present \<rparr>
        (init_manager\<lparr>usb_output_devices :=
           [(''/dev/ttyUSB0'', init_device ''/dev/ttyUSB0''),
            (''/dev/ttyUSB1'', init_device ''/dev/ttyUSB1'')]\<rparr>)
     = (init_manager\<lparr>usb_output_devices :=
           [(''/dev/ttyUSB0'', init_device ''/dev/ttyUSB0''),
            (''/dev/ttyUSB1'', init_device ''/dev/ttyUSB1'')], firmware_view := True\<rparr>,
        [CreateFirmwareView, ShowFirmwareView,
         Log ''e'' ''There is no firmware for machine prusa_i3.'',
         Log ''e'' ''Could not find any firmware for machine prusa_i3.'',
         DeviceSetProgress ''/dev/ttyUSB0'' 100 100,
         Log ''w'' ''No firmware found for printer /dev/ttyUSB0'',
         Log ''e'' ''There is no firmware for machine prusa_i3.'',
         Log ''e'' ''Could not find any firmware for machine prusa_i3.'',
         DeviceSetProgress ''/dev/ttyUSB1'' 100 100,
         Log ''w'' ''No firmware found for printer /dev/ttyUSB1''],
        None)"
  by (simp add: updateAllFirmware_def spawnFirmwareInterface_def init_manager_def
                try_updateFirmware_def getDefaultFirmwareName_def machine_without_extras_def)

text \<open>
  C4. When the firmware name resolves and at least one device is tracked,
  \<open>updateAllFirmware\<close> visits every tracked device in dict order and returns normally:
  a device for which the image file is absent when it is visited gets
  \<open>setProgress(100, 100)\<close> and a logged warning, every other device gets
  \<open>updateFirmware\<close> with the path of the image, whatever happened to the devices before it.
\<close>

theorem C4_updateAllFirmware_partial_failure:
  assumes "getDefaultFirmwareName env = (lg, Inr name)"
      and "usb_output_devices m \<noteq> []"
  shows "updateAllFirmware env m =
           (fst (spawnFirmwareInterface m []),
            snd (spawnFirmwareInterface m [])
              @ concat (map (\<lambda>port.
                   lg @ (case getPath env port name of
                           None \<Rightarrow> [DeviceSetProgress port 100 100,
                                     Log ''w'' (''No firmware found for printer '' @ port)]
                         | Some path \<Rightarrow> [DeviceUpdateFirmware port path]))
                   (map fst (usb_output_devices m))),
            None)"
  using assms(2)
  by (simp add: updateAllFirmware_def spawnFirmwareInterface_def
                updateAllFirmware_loop_resolved [OF assms(1)])

text \<open>
  Three tracked devices; the image is absent when the second one is visited. The second
  gets \<open>setProgress(100, 100)\<close>, the first and the third are flashed.
\<close>

theorem C4_updateAllFirmware_partial_failure_witness:
  "getDefaultFirmwareName
      \<lparr> machine_type = ''ultimaker2'', machine_heated_bed = False, platform_system = ''Linux'',
        getPath = images_absent_at ''/dev/ttyUSB1'' \<rparr>
     = ([Log ''d'' ''Choosing basic firmware for machine ultimaker2.''], Inr ''MarlinUltimaker2.hex'')
   \<and> updateAllFirmware
      \<lparr> machine_type = ''ultimaker2'', machine_heated_bed = False, platform_system = ''Linux'',
        getPath = images_absent_at ''/dev/ttyUSB1'' \<rparr>
      (init_manager\<lparr>usb_output_devices :=
         [(''/dev/ttyUSB0'', init_device ''/dev/ttyUSB0''),
          (''/dev/ttyUSB1'', init_device ''/dev/ttyUSB1''),
          (''/dev/ttyUSB2'', init_device ''/dev/ttyUSB2'')]\<rparr>)
     = (init_manager\<lparr>usb_output_devices :=
         [(''/dev/ttyUSB0'', init_device ''/dev/ttyUSB0''),
          (''/dev/ttyUSB1'', init_device ''/dev/ttyUSB1''),
          (''/dev/ttyUSB2'', init_device ''/dev/ttyUSB2'')], firmware_view := True\<rparr>,
        [CreateFirmwareView, ShowFirmwareView,
         Log ''d'' ''Choosing basic firmware for machine ultimaker2.'',
         DeviceUpdateFirmware ''/dev/ttyUSB0'' ''/firmware/MarlinUltimaker2.hex'',
         Log ''d'' ''Choosing basic firmware for machine ultimaker2.'',
         DeviceSetProgress ''/dev/ttyUSB1'' 100 100,
         Log ''w'' ''No firmware found for printer /dev/ttyUSB1'',
         Log ''d'' ''Choosing basic firmware for machine ultimaker2.'',
         DeviceUpdateFirmware ''/dev/ttyUSB2'' ''/firmware/MarlinUltimaker2.hex''],
        None)"
proof -
  let ?env = "\<lparr> machine_type = ''ultimaker2'', machine_heated_bed = False, platform_system = ''Linux'',
        getPath = images_absent_at ''/dev/ttyUSB1'' \<rparr>"
  let ?m = "init_manager\<lparr>usb_output_devices :=
         [(''/dev/ttyUSB0'', init_device ''/dev/ttyUSB0''),
          (''/dev/ttyUSB1'', init_device ''/dev/ttyUSB1''),
          (''/dev/ttyUSB2'', init_device ''/dev/ttyUSB2'')]\<rparr>"
  have r: "getDefaultFirmwareName ?env
     = ([Log ''d'' ''Choosing basic firmware for machine ultimaker2.''], Inr ''MarlinUltimaker2.hex'')"
    by (simp add: getDefaultFirmwareName_def machine_without_extras_def
                  machine_with_heated_bed_def)
  have ne: "usb_output_devices ?m \<noteq> []" by simp
  show ?thesis
    using r C4_updateAllFirmware_partial_failure [OF r ne]
    by (simp add: spawnFirmwareInterface_def init_manager_def images_absent_at_def)
qed

text \<open>
  C10. For a port that is not a key of the tracked-device dict,
  \<open>updateFirmwareBySerial\<close> returns \<open>False\<close>, has no effect at all (the firmware window
  is not opened, no firmware name is resolved, nothing is logged) and leaves the manager
  as it was.
\<close>

theorem C10_updateFirmwareBySerial_unknown_port:
  assumes "serial_port \<notin> fst ` set (usb_output_devices m)"
  shows "updateFirmwareBySerial env m serial_port = (m, [], Inr False)"
  using assms by (simp add: updateFirmwareBySerial_def map_of_eq_None_iff)

text \<open>A manager that tracks \<open>COM3\<close> is asked to flash \<open>COM7\<close>.\<close>

theorem C10_updateFirmwareBySerial_unknown_port_witness:
  "''COM7'' \<notin> fst ` set (usb_output_devices
       (init_manager\<lparr>usb_output_devices := [(''COM3'', init_device ''COM3'')]\<rparr>))
   \<and> updateFirmwareBySerial
         \<lparr> machine_type = ''ultimaker2'', machine_heated_bed = False,
           platform_system = ''Windows'', getPath = no_images \<rparr>
         (init_manager\<lparr>usb_output_devices := [(''COM3'', init_device ''COM3'')]\<rparr>) ''COM7''
       = (init_manager\<lparr>usb_output_devices := [(''COM3'', init_device ''COM3'')]\<rparr>,
          [], Inr False)"
  using C10_updateFirmwareBySerial_unknown_port
          [of "''COM7''" "init_manager\<lparr>usb_output_devices := [(''COM3'', init_device ''COM3'')]\<rparr>"
              "\<lparr> machine_type = ''ultimaker2'', machine_heated_bed = False, platform_system = ''Windows'', getPath = no_images \<rparr>"]
  by simp

subsection \<open>Port scan\<close>

lemma addOutputDevice_keys:
  "set (map fst (usb_output_devices (fst (addOutputDevice m p))))
     = insert p (set (map fst (usb_output_devices m)))"
  "distinct (map fst (usb_output_devices m)) \<Longrightarrow>
     distinct (map fst (usb_output_devices (fst (addOutputDevice m p))))"
  "serial_port_list (fst (addOutputDevice m p)) = serial_port_list m"
  by (auto simp add: addOutputDevice_def update_keys distinct_update)

lemma deliver_all_pending:
  "snd (deliver_all (m, pending)) = []"
  by (induction pending arbitrary: m) simp_all

lemma deliver_all_list:
  "serial_port_list (fst (deliver_all (m, pending))) = serial_port_list m"
  by (induction pending arbitrary: m) (simp_all add: addOutputDevice_keys(3))

lemma deliver_all_keys:
  "set (map fst (usb_output_devices (fst (deliver_all (m, pending)))))
     = set (map fst (usb_output_devices m)) \<union> set pending"
proof (induction pending arbitrary: m)
  case Nil
  show ?case by simp
next
  case (Cons p ps)
  have "deliver_all (m, p # ps) = deliver_all (fst (addOutputDevice m p), ps)"
    by simp
  then show ?case
    using Cons.IH [of "fst (addOutputDevice m p)"] addOutputDevice_keys(1) [of m p]
    by auto
qed

lemma deliver_all_distinct:
  "distinct (map fst (usb_output_devices m)) \<Longrightarrow>
     distinct (map fst (usb_output_devices (fst (deliver_all (m, pending)))))"
proof (induction pending arbitrary: m)
  case Nil
  then show ?case by simp
next
  case (Cons p ps)
  have "deliver_all (m, p # ps) = deliver_all (fst (addOutputDevice m p), ps)"
    by simp
  then show ?case
    using Cons.IH [OF addOutputDevice_keys(2) [OF Cons.prems, of p]] by simp
qed

lemma foldl_delete_keys:
  "map fst (foldl (\<lambda>ds port. AList.delete port ds) ds ports)
     = filter (\<lambda>k. k \<notin> set ports) (map fst ds)"
proof (induction ports arbitrary: ds)
  case Nil
  show ?case by simp
next
  case (Cons p ps)
  show ?case
    by (auto simp add: Cons.IH delete_keys removeAll_filter_not_eq intro!: filter_cong)
qed

lemma handed_off_append:
  "handed_off (tr @ tr') = handed_off tr @ handed_off tr'"
  by (induction tr rule: handed_off.induct) simp_all

lemma handed_off_emit_new_ports:
  "handed_off (emit_new_ports known ports) = filter (\<lambda>p. p \<notin> set known) ports"
  by (induction ports) simp_all

lemma handed_off_close:
  "handed_off (map (DeviceClose \<circ> f) xs) = []"
  "handed_off (map (DeviceUnreferenced \<circ> f) xs) = []"
  by (induction xs) simp_all

lemma addRemovePorts_list:
  "serial_port_list (fst (addRemovePorts m serial_ports)) = serial_ports"
  by (simp add: addRemovePorts_def Let_def)

lemma addRemovePorts_keys:
  "map fst (usb_output_devices (fst (addRemovePorts m serial_ports)))
     = filter (\<lambda>k. k \<in> set serial_ports) (map fst (usb_output_devices m))"
proof -
  have "map fst (filter (\<lambda>(port, device). port \<notin> set serial_ports) (usb_output_devices m))
          = filter (\<lambda>k. k \<notin> set serial_ports) (map fst (usb_output_devices m))"
    by (induction "usb_output_devices m") (auto simp add: filter_map comp_def case_prod_beta)
  then show ?thesis
    by (auto simp add: addRemovePorts_def Let_def foldl_delete_keys intro!: filter_cong)
qed

lemma addRemovePorts_handed_off:
  "handed_off (snd (addRemovePorts m serial_ports))
     = filter (\<lambda>p. p \<notin> set (serial_port_list m)) serial_ports"
  by (simp add: addRemovePorts_def Let_def handed_off_append handed_off_emit_new_ports
                handed_off_close)

lemma scan_step_parts:
  shows "fst (scan_step (m, pending) serial_ports) = fst (addRemovePorts m serial_ports)"
    and "snd (scan_step (m, pending) serial_ports)
           = pending @ filter (\<lambda>p. p \<notin> set (serial_port_list m)) serial_ports"
proof -
  obtain m' tr where a: "addRemovePorts m serial_ports = (m', tr)"
    by (cases "addRemovePorts m serial_ports")
  show "fst (scan_step (m, pending) serial_ports) = fst (addRemovePorts m serial_ports)"
    by (simp add: scan_step_def a)
  show "snd (scan_step (m, pending) serial_ports)
          = pending @ filter (\<lambda>p. p \<notin> set (serial_port_list m)) serial_ports"
    using addRemovePorts_handed_off [of m serial_ports]
    by (simp add: scan_step_def a)
qed

text \<open>
  What a cycle leaves when it returns, before anything is delivered, if the cycle
  started from a manager that tracks its port list: the keys are within the new port
  list, and the keys together with the pending ports are the ports of the scan.
\<close>

lemma scan_step_before_delivery:
  assumes "ports_tracked m"
  shows "set (map fst (usb_output_devices (fst (scan_step (m, []) serial_ports))))
           \<subseteq> set serial_ports"
    and "set (map fst (usb_output_devices (fst (scan_step (m, []) serial_ports))))
           \<union> set (snd (scan_step (m, []) serial_ports)) = set serial_ports"
    and "distinct (map fst (usb_output_devices (fst (scan_step (m, []) serial_ports))))"
  using assms
  by (auto simp add: scan_step_parts addRemovePorts_keys ports_tracked_def)

lemma scan_and_deliver_tracked:
  assumes "ports_tracked m"
  shows "ports_tracked (fst (deliver_all (scan_step (m, []) serial_ports)))"
proof -
  obtain m1 pending where s: "scan_step (m, []) serial_ports = (m1, pending)"
    by (cases "scan_step (m, []) serial_ports")
  have keys: "set (map fst (usb_output_devices m1)) \<union> set pending = set serial_ports"
    and dist: "distinct (map fst (usb_output_devices m1))"
    using scan_step_before_delivery(2,3) [OF assms, of serial_ports] by (simp_all add: s)
  have lst: "serial_port_list m1 = serial_ports"
    using scan_step_parts(1) [of m "[]" serial_ports] addRemovePorts_list [of m serial_ports]
    by (simp add: s)
  show ?thesis
    unfolding s ports_tracked_def
    using deliver_all_keys [of m1 pending] deliver_all_distinct [OF dist, of pending]
          deliver_all_list [of m1 pending] keys lst
    by simp
qed

lemma scan_cycles_delivered_snoc:
  "scan_cycles_delivered m (scans @ [s])
     = fst (deliver_all (scan_step (scan_cycles_delivered m scans, []) s))"
  by (simp add: scan_cycles_delivered_def)

lemma scan_cycles_delivered_tracked:
  "ports_tracked m \<Longrightarrow> ports_tracked (scan_cycles_delivered m scans)"
proof (induction scans rule: rev_induct)
  case Nil
  then show ?case by (simp add: scan_cycles_delivered_def)
next
  case (snoc s scans)
  then show ?case
    by (simp add: scan_cycles_delivered_snoc scan_and_deliver_tracked)
qed

lemma scan_cycles_delivered_list:
  "scans \<noteq> [] \<Longrightarrow> serial_port_list (scan_cycles_delivered m scans) = last scans"
proof (cases scans rule: rev_cases)
  case Nil
  assume "scans \<noteq> []"
  with Nil show ?thesis by simp
next
  case (snoc ys y)
  obtain m1 pending where s: "scan_step (scan_cycles_delivered m ys, []) y = (m1, pending)"
    by (cases "scan_step (scan_cycles_delivered m ys, []) y")
  have "serial_port_list m1 = y"
    using scan_step_parts(1) [of "scan_cycles_delivered m ys" "[]" y]
          addRemovePorts_list [of "scan_cycles_delivered m ys" y]
    by (simp add: s)
  then show ?thesis
    using deliver_all_list [of m1 pending]
    by (simp add: snoc scan_cycles_delivered_snoc s)
qed

text \<open>
  C5. The port handed over by a cycle is added to the dict only when the owning thread
  delivers it. For every non-empty sequence of scan results fed to \<open>_addRemovePorts\<close>,
  starting from a new manager, where everything a cycle hands over is delivered before
  the next cycle starts:
  once the ports of the last cycle are delivered, the set of keys of the port-to-device
  dict is the set of ports of the last scan, no key occurs twice, the stored port list
  is the last scan, and so the keys are a subset of the stored port list;
  and when the last cycle returns, before its ports are delivered, the keys are a subset
  of the ports of the last scan, and the keys together with the pending ports are the
  ports of the last scan. (Every prefix of a sequence is a sequence, so this holds for
  each cycle.)
\<close>

theorem C5_tracked_keys_equal_last_scan_after_delivery:
  assumes "scans \<noteq> []"
  shows "set (map fst (usb_output_devices (scan_cycles_delivered init_manager scans)))
           = set (last scans)
       \<and> distinct (map fst (usb_output_devices (scan_cycles_delivered init_manager scans)))
       \<and> serial_port_list (scan_cycles_delivered init_manager scans) = last scans
       \<and> set (map fst (usb_output_devices (scan_cycles_delivered init_manager scans)))
           \<subseteq> set (serial_port_list (scan_cycles_delivered init_manager scans))
       \<and> set (map fst (usb_output_devices
               (fst (scan_step (scan_cycles_delivered init_manager (butlast scans), [])
                               (last scans)))))
           \<subseteq> set (last scans)
       \<and> set (map fst (usb_output_devices
               (fst (scan_step (scan_cycles_delivered init_manager (butlast scans), [])
                               (last scans)))))
           \<union> set (snd (scan_step (scan_cycles_delivered init_manager (butlast scans), [])
                                 (last scans)))
           = set (last scans)"
proof -
  have init: "ports_tracked init_manager"
    by (simp add: ports_tracked_def init_manager_def)
  then have "ports_tracked (scan_cycles_delivered init_manager scans)"
    by (rule scan_cycles_delivered_tracked)
  then have after: "set (map fst (usb_output_devices (scan_cycles_delivered init_manager scans)))
                      = set (last scans)
       \<and> distinct (map fst (usb_output_devices (scan_cycles_delivered init_manager scans)))
       \<and> serial_port_list (scan_cycles_delivered init_manager scans) = last scans
       \<and> set (map fst (usb_output_devices (scan_cycles_delivered init_manager scans)))
           \<subseteq> set (serial_port_list (scan_cycles_delivered init_manager scans))"
    using scan_cycles_delivered_list [OF assms, of init_manager]
    by (simp add: ports_tracked_def)
  have "ports_tracked (scan_cycles_delivered init_manager (butlast scans))"
    using init by (rule scan_cycles_delivered_tracked)
  then have before: "set (map fst (usb_output_devices
               (fst (scan_step (scan_cycles_delivered init_manager (butlast scans), [])
                               (last scans)))))
           \<subseteq> set (last scans)
       \<and> set (map fst (usb_output_devices
               (fst (scan_step (scan_cycles_delivered init_manager (butlast scans), [])
                               (last scans)))))
           \<union> set (snd (scan_step (scan_cycles_delivered init_manager (butlast scans), [])
                                 (last scans)))
           = set (last scans)"
    using scan_step_before_delivery(1,2) by blast
  from after before show ?thesis by blast
qed

text \<open>
  Two delivered cycles: one port disappears, one stays, and a new one is listed twice by
  the second scan (and so handed over twice).
\<close>

theorem C5_tracked_keys_equal_last_scan_after_delivery_witness:
  "[[''/dev/ttyUSB0'', ''/dev/ttyACM0''], [''/dev/ttyACM0'', ''/dev/ttyUSB1'', ''/dev/ttyUSB1'']] \<noteq> []
   \<and> map fst (usb_output_devices (scan_cycles_delivered init_manager
        [[''/dev/ttyUSB0'', ''/dev/ttyACM0''], [''/dev/ttyACM0'', ''/dev/ttyUSB1'', ''/dev/ttyUSB1'']]))
       = [''/dev/ttyACM0'', ''/dev/ttyUSB1'']
   \<and> set (map fst (usb_output_devices (scan_cycles_delivered init_manager
        [[''/dev/ttyUSB0'', ''/dev/ttyACM0''], [''/dev/ttyACM0'', ''/dev/ttyUSB1'', ''/dev/ttyUSB1'']])))
       = {''/dev/ttyACM0'', ''/dev/ttyUSB1''}
   \<and> serial_port_list (scan_cycles_delivered init_manager
        [[''/dev/ttyUSB0'', ''/dev/ttyACM0''], [''/dev/ttyACM0'', ''/dev/ttyUSB1'', ''/dev/ttyUSB1'']])
       = [''/dev/ttyACM0'', ''/dev/ttyUSB1'', ''/dev/ttyUSB1'']
   \<and> map fst (usb_output_devices (fst (scan_step
         (scan_cycles_delivered init_manager [[''/dev/ttyUSB0'', ''/dev/ttyACM0'']], [])
         [''/dev/ttyACM0'', ''/dev/ttyUSB1'', ''/dev/ttyUSB1''])))
       = [''/dev/ttyACM0'']
   \<and> snd (scan_step
         (scan_cycles_delivered init_manager [[''/dev/ttyUSB0'', ''/dev/ttyACM0'']], [])
         [''/dev/ttyACM0'', ''/dev/ttyUSB1'', ''/dev/ttyUSB1''])
       = [''/dev/ttyUSB1'', ''/dev/ttyUSB1'']"
  using C5_tracked_keys_equal_last_scan_after_delivery
          [of "[[''/dev/ttyUSB0'', ''/dev/ttyACM0''], [''/dev/ttyACM0'', ''/dev/ttyUSB1'', ''/dev/ttyUSB1'']]"]
  by (simp add: scan_cycles_delivered_def scan_step_def addRemovePorts_def addOutputDevice_def
                init_manager_def Let_def)

text \<open>
  The keys are not the ports of the scan when the cycle returns: after the scan
  \<open>[/dev/ttyUSB0]\<close> on a new manager the dict is still empty and the port is pending.
  And the keys need not stay within the port list: when that port is delivered only
  after a following empty scan, the dict holds \<open>/dev/ttyUSB0\<close> while the port list is
  empty.
\<close>

theorem C5_keys_differ_from_scan_counterexample:
  "map fst (usb_output_devices (fst (scan_step (init_manager, []) [''/dev/ttyUSB0'']))) = []
   \<and> serial_port_list (fst (scan_step (init_manager, []) [''/dev/ttyUSB0'']))
       = [''/dev/ttyUSB0'']
   \<and> snd (scan_step (init_manager, []) [''/dev/ttyUSB0'']) = [''/dev/ttyUSB0'']
   \<and> map fst (usb_output_devices (fst (deliver_step
         (scan_step (scan_step (init_manager, []) [''/dev/ttyUSB0'']) []))))
       = [''/dev/ttyUSB0'']
   \<and> serial_port_list (fst (deliver_step
         (scan_step (scan_step (init_manager, []) [''/dev/ttyUSB0'']) [])))
       = []"
  by (simp add: scan_step_def addRemovePorts_def addOutputDevice_def init_manager_def Let_def)

subsection \<open>Connection state reports\<close>

lemma list_all_update:
  "list_all P ds \<Longrightarrow> P (k, v) \<Longrightarrow> list_all P (AList.update k v ds)"
  by (induction ds) auto

lemma update_keys_present:
  "k \<in> fst ` set ds \<Longrightarrow> fst ` set (AList.update k v ds) = fst ` set ds"
  using update_keys [of k v ds] by (metis list.set_map)

lemma report_connection_state_untracked:
  assumes "port \<notin> fst ` set (usb_output_devices m)"
  shows "report_connection_state m port st = (m, [Emit (connectionStateChanged port)])"
proof -
  have "map_of (usb_output_devices m) port = None"
    using assms by (simp add: map_of_eq_None_iff)
  then show ?thesis
    by (simp add: report_connection_state_def onConnectionStateChanged_def)
qed

lemma report_connection_state_tracked:
  assumes "keys_are_ids m" and "map_of (usb_output_devices m) port = Some d"
  shows "report_connection_state m port st =
           (m\<lparr>usb_output_devices :=
                AList.update port (d\<lparr>connection_state := st\<rparr>) (usb_output_devices m)\<rparr>,
            [Emit (connectionStateChanged port),
             (if st = connected_state then RegistryAddOutputDevice port
              else RegistryRemoveOutputDevice port),
             Emit manager_connectionStateChanged])"
proof -
  have "(port, d) \<in> set (usb_output_devices m)"
    using assms(2) by (rule map_of_SomeD)
  then have id: "device_id d = port"
    using assms(1) by (auto simp add: keys_are_ids_def list_all_iff)
  show ?thesis
    by (simp add: report_connection_state_def assms(2) setConnectionState_def id
                  onConnectionStateChanged_def update_conv')
qed

lemma report_connection_state_invariant:
  assumes "keys_are_ids m"
  shows "keys_are_ids (fst (report_connection_state m port st))
       \<and> fst ` set (usb_output_devices (fst (report_connection_state m port st)))
           = fst ` set (usb_output_devices m)"
proof (cases "map_of (usb_output_devices m) port")
  case None
  then have "port \<notin> fst ` set (usb_output_devices m)"
    by (simp add: map_of_eq_None_iff)
  then show ?thesis
    using assms by (simp add: report_connection_state_untracked)
next
  case (Some d)
  then have mem: "(port, d) \<in> set (usb_output_devices m)"
    by (rule map_of_SomeD)
  then have id: "device_id d = port"
    using assms by (auto simp add: keys_are_ids_def list_all_iff)
  have key: "port \<in> fst ` set (usb_output_devices m)"
    using mem by force
  show ?thesis
    using assms id
    by (simp add: report_connection_state_tracked [OF assms Some] keys_are_ids_def
                  list_all_update update_keys_present [OF key])
qed

text \<open>
  C3. The manager keeps no record of what it has published, and a device emits its
  connection-state signal on every report. So for every sequence of connection-state
  reports, on a manager whose devices are stored under their own ids, each report for a
  tracked device causes exactly one call on the registry, in report order:
  \<open>addOutputDevice\<close> when the reported state is \<open>connected\<close>, \<open>removeOutputDevice\<close> for
  every other state; a report for a device that is not tracked causes none. The number
  of publishes is the number of \<open>connected\<close> reports, not the number of connections.
\<close>

theorem C3_one_registry_call_per_report:
  assumes "keys_are_ids m"
  shows "filter is_registry_call (snd (report_connection_states m reports)) =
           map (\<lambda>(port, st). if st = connected_state then RegistryAddOutputDevice port
                              else RegistryRemoveOutputDevice port)
               (filter (\<lambda>(port, st). port \<in> fst ` set (usb_output_devices m)) reports)"
  using assms
proof (induction reports arbitrary: m)
  case Nil
  show ?case by simp
next
  case (Cons r rs)
  obtain port st where r: "r = (port, st)" by (cases r)
  let ?m1 = "fst (report_connection_state m port st)"
  have inv: "keys_are_ids ?m1"
    and keys: "fst ` set (usb_output_devices ?m1) = fst ` set (usb_output_devices m)"
    using report_connection_state_invariant [OF Cons.prems, of port st] by simp_all
  have step: "snd (report_connection_states m (r # rs)) =
                snd (report_connection_state m port st) @ snd (report_connection_states ?m1 rs)"
    by (simp add: r split: prod.splits)
  have head: "filter is_registry_call (snd (report_connection_state m port st)) =
                (if port \<in> fst ` set (usb_output_devices m)
                 then [if st = connected_state then RegistryAddOutputDevice port
                       else RegistryRemoveOutputDevice port]
                 else [])"
  proof (cases "map_of (usb_output_devices m) port")
    case None
    then have "port \<notin> fst ` set (usb_output_devices m)"
      by (simp add: map_of_eq_None_iff)
    then show ?thesis by (simp add: report_connection_state_untracked)
  next
    case (Some d)
    then have "port \<in> fst ` set (usb_output_devices m)"
      by (metis map_of_eq_None_iff option.distinct(1))
    then show ?thesis
      by (simp add: report_connection_state_tracked [OF Cons.prems Some])
  qed
  show ?case
    unfolding step filter_append head Cons.IH [OF inv] keys
    by (simp add: r)
qed

text \<open>
  A device goes through connecting, connected, connected again and busy, while a device
  that is not tracked reports connected in between.
\<close>

theorem C3_one_registry_call_per_report_witness:
  "keys_are_ids (scan_cycles_delivered init_manager [[''/dev/ttyUSB0'']])
   \<and> filter is_registry_call
       (snd (report_connection_states (scan_cycles_delivered init_manager [[''/dev/ttyUSB0'']])
          [(''/dev/ttyUSB0'', connecting_state), (''/dev/ttyUSB0'', connected_state),
           (''/dev/ttyUSB9'', connected_state),
           (''/dev/ttyUSB0'', connected_state), (''/dev/ttyUSB0'', busy_state)]))
     = [RegistryRemoveOutputDevice ''/dev/ttyUSB0'', RegistryAddOutputDevice ''/dev/ttyUSB0'',
        RegistryAddOutputDevice ''/dev/ttyUSB0'', RegistryRemoveOutputDevice ''/dev/ttyUSB0'']"
proof -
  have m: "scan_cycles_delivered init_manager [[''/dev/ttyUSB0'']] =
             \<lparr> serial_port_list = [''/dev/ttyUSB0''],
               usb_output_devices = [(''/dev/ttyUSB0'', init_device ''/dev/ttyUSB0'')],
               check_updates = True, firmware_view = False \<rparr>"
    by (simp add: scan_cycles_delivered_def scan_step_def addRemovePorts_def
                  addOutputDevice_def init_manager_def Let_def)
  have k: "keys_are_ids (scan_cycles_delivered init_manager [[''/dev/ttyUSB0'']])"
    by (simp add: m keys_are_ids_def init_device_def)
  show ?thesis
    using k C3_one_registry_call_per_report [OF k,
            of "[(''/dev/ttyUSB0'', connecting_state), (''/dev/ttyUSB0'', connected_state),
                 (''/dev/ttyUSB9'', connected_state),
                 (''/dev/ttyUSB0'', connected_state), (''/dev/ttyUSB0'', busy_state)]"]
    by (simp add: m)
qed

text \<open>
  Repeated identical reports do cause a double publish and a double unpublish: two
  \<open>connected\<close> reports of one tracked device give two \<open>addOutputDevice\<close> calls, two
  \<open>closed\<close> reports give two \<open>removeOutputDevice\<close> calls.
\<close>

theorem C3_repeated_reports_counterexample:
  "snd (report_connection_states (scan_cycles_delivered init_manager [[''/dev/ttyUSB0'']])
          [(''/dev/ttyUSB0'', connected_state), (''/dev/ttyUSB0'', connected_state)])
     = [Emit (connectionStateChanged ''/dev/ttyUSB0''),
        RegistryAddOutputDevice ''/dev/ttyUSB0'',
        Emit manager_connectionStateChanged,
        Emit (connectionStateChanged ''/dev/ttyUSB0''),
        RegistryAddOutputDevice ''/dev/ttyUSB0'',
        Emit manager_connectionStateChanged]
   \<and> snd (report_connection_states (scan_cycles_delivered init_manager [[''/dev/ttyUSB0'']])
          [(''/dev/ttyUSB0'', closed_state), (''/dev/ttyUSB0'', closed_state)])
     = [Emit (connectionStateChanged ''/dev/ttyUSB0''),
        RegistryRemoveOutputDevice ''/dev/ttyUSB0'',
        Emit manager_connectionStateChanged,
        Emit (connectionStateChanged ''/dev/ttyUSB0''),
        RegistryRemoveOutputDevice ''/dev/ttyUSB0'',
        Emit manager_connectionStateChanged]"
  by (simp add: scan_cycles_delivered_def scan_step_def addRemovePorts_def addOutputDevice_def
                init_manager_def init_device_def report_connection_state_def
                setConnectionState_def onConnectionStateChanged_def Let_def)

end
